theory Spec2Isabelle
  imports Main "HOL-Library.Sublist"
begin

section \<open>Strings of UTF-16 code units\<close>

text \<open>
  The program is TypeScript: a string is a sequence of UTF-16 code units, and every
  regular expression of the source is written without the \<open>u\<close> flag, so it works on
  code units. A code unit is a natural number here (every test below compares it with
  constants under \<open>0x10000\<close>), and a string is a list of them. \<open>js\<close> turns a literal
  into such a string.
\<close>

type_synonym cu = nat
type_synonym jstring = "cu list"

definition js :: "string \<Rightarrow> jstring" where
  "js s = map of_char s"

abbreviation (input) NUL :: cu where "NUL \<equiv> 0"
abbreviation (input) NL :: cu where "NL \<equiv> 10"
abbreviation (input) DQUOTE :: cu where "DQUOTE \<equiv> 34"
abbreviation (input) DOLLAR :: cu where "DOLLAR \<equiv> 36"
abbreviation (input) AMP :: cu where "AMP \<equiv> 38"
abbreviation (input) SQUOTE :: cu where "SQUOTE \<equiv> 39"
abbreviation (input) LT :: cu where "LT \<equiv> 60"
abbreviation (input) GT :: cu where "GT \<equiv> 62"
abbreviation (input) BACKTICK :: cu where "BACKTICK \<equiv> 96"
abbreviation (input) TILDE :: cu where "TILDE \<equiv> 126"

text \<open>Character classes of the regular expressions: \<open>\d\<close>, \<open>a-zA-Z\<close>, \<open>\w\<close> (which
  decides \<open>\b\<close>) and \<open>\s\<close>. \<open>\s\<close> is ECMAScript's WhiteSpace and LineTerminator, the
  same set \<open>String.prototype.trim\<close> strips.\<close>

definition isDigit :: "cu \<Rightarrow> bool" where
  "isDigit c = (48 \<le> c \<and> c \<le> 57)"

definition isLetter :: "cu \<Rightarrow> bool" where
  "isLetter c = ((97 \<le> c \<and> c \<le> 122) \<or> (65 \<le> c \<and> c \<le> 90))"

definition isWordChar :: "cu \<Rightarrow> bool" where
  "isWordChar c = (isLetter c \<or> isDigit c \<or> c = 95)"

definition isSpace :: "cu \<Rightarrow> bool" where
  "isSpace c = ((9 \<le> c \<and> c \<le> 13) \<or> c = 32 \<or> c = 0xA0 \<or> c = 0x1680
     \<or> (0x2000 \<le> c \<and> c \<le> 0x200A) \<or> c = 0x2028 \<or> c = 0x2029 \<or> c = 0x202F
     \<or> c = 0x205F \<or> c = 0x3000 \<or> c = 0xFEFF)"

definition trim :: "jstring \<Rightarrow> jstring" where
  "trim s = rev (dropWhile isSpace (rev (dropWhile isSpace s)))"

text \<open>The decimal digits of an index, as the template literal \<open>${idx}\<close> prints it.\<close>

fun showNat :: "nat \<Rightarrow> jstring" where
  "showNat n = (if n < 10 then [48 + n] else showNat (n div 10) @ [48 + n mod 10])"

declare showNat.simps [simp del]

section \<open>escapeHtmlAttr\<close>

text \<open>\<open>s.replace(/c/g, r)\<close> for a one-character pattern and a replacement without
  \<open>$\<close>: every occurrence of the character becomes \<open>r\<close>.\<close>

definition replaceChar :: "cu \<Rightarrow> jstring \<Rightarrow> jstring \<Rightarrow> jstring" where
  "replaceChar c r s = concat (map (\<lambda>x. if x = c then r else [x]) s)"

definition escapeHtmlAttr :: "jstring \<Rightarrow> jstring" where
  "escapeHtmlAttr s =
     replaceChar GT (js ''&gt;'')
       (replaceChar LT (js ''&lt;'')
         (replaceChar DQUOTE (js ''&quot;'')
           (replaceChar AMP (js ''&amp;'') s)))"

section \<open>String.prototype.replaceAll with a string pattern\<close>

text \<open>
  \<open>GetSubstitution(matched, str, position, captures, namedCaptures, template)\<close> of
  ECMAScript, for a string pattern: there are no captures, so \<open>$n\<close> and \<open>$<\<close> are
  copied as they are, which is what the last branch does one character at a time.
  \<open>$$\<close> is a dollar, \<open>$&\<close> the match, \<open>$`\<close> the text before it and \<open>$'\<close> the
  text after it.
\<close>

fun getSubstitution :: "jstring \<Rightarrow> jstring \<Rightarrow> nat \<Rightarrow> jstring \<Rightarrow> jstring" where
  "getSubstitution matched str position (c # d # t) =
     (if c = DOLLAR \<and> d = DOLLAR then DOLLAR # getSubstitution matched str position t
      else if c = DOLLAR \<and> d = BACKTICK then
        take position str @ getSubstitution matched str position t
      else if c = DOLLAR \<and> d = AMP then matched @ getSubstitution matched str position t
      else if c = DOLLAR \<and> d = SQUOTE then
        drop (position + length matched) str @ getSubstitution matched str position t
      else c # getSubstitution matched str position (d # t))"
| "getSubstitution matched str position t = t"

text \<open>
  \<open>str.replaceAll(searchString, replaceValue)\<close> with two strings: the matches are
  found from left to right without overlap in \<open>str\<close> itself, and each is replaced by
  the substitution of \<open>replaceValue\<close>. \<open>replaceAllAt\<close> walks the suffix of \<open>str\<close>
  that starts at \<open>position\<close>. An empty \<open>searchString\<close> matches before every code unit
  and at the end.
\<close>

fun replaceAllAt :: "jstring \<Rightarrow> jstring \<Rightarrow> jstring \<Rightarrow> nat \<Rightarrow> jstring \<Rightarrow> jstring" where
  "replaceAllAt pat rep str position [] = []"
| "replaceAllAt pat rep str position (c # cs) =
     (if pat \<noteq> [] \<and> prefix pat (c # cs) then
        getSubstitution pat str position rep
          @ replaceAllAt pat rep str (position + length pat) (drop (length pat - 1) cs)
      else c # replaceAllAt pat rep str (Suc position) cs)"

definition replaceAll :: "jstring \<Rightarrow> jstring \<Rightarrow> jstring \<Rightarrow> jstring" where
  "replaceAll pat rep str =
     (if pat = [] then
        concat (map (\<lambda>i. getSubstitution [] str i rep @ take 1 (drop i str))
                  [0 ..< Suc (length str)])
      else replaceAllAt pat rep str 0 str)"

section \<open>String.prototype.replace with a global regular expression and a function\<close>

text \<open>
  A matcher stands for one regular expression: at a position (the rest of the input
  from there) it gives the text matched and the text of capture group 1, or nothing.
  None of the four expressions of \<open>preprocessMathInMarkdown\<close> looks behind the
  position nor matches the empty string. \<open>replaceG\<close> is the global replace: the
  leftmost match is passed to the callback, the search goes on after the match, and an
  unmatched code unit is copied. The callback reads and updates a state (the array
  \<open>placeholders\<close> of the source).
\<close>

type_synonym matcher = "jstring \<Rightarrow> (jstring \<times> jstring) option"

fun replaceG :: "matcher \<Rightarrow> (jstring \<Rightarrow> jstring \<Rightarrow> 's \<Rightarrow> jstring \<times> 's)
    \<Rightarrow> jstring \<Rightarrow> 's \<Rightarrow> jstring \<times> 's" where
  "replaceG m f [] st = ([], st)"
| "replaceG m f (c # cs) st =
     (case m (c # cs) of
        None \<Rightarrow> (let (out, st') = replaceG m f cs st in (c # out, st'))
      | Some (mt, g) \<Rightarrow>
          if mt = [] then (let (out, st') = replaceG m f cs st in (c # out, st'))
          else
            (let (r, st1) = f mt g st;
                 (out, st2) = replaceG m f (drop (length mt - 1) cs) st1
             in (r @ out, st2)))"

definition replaceFn :: "matcher \<Rightarrow> (jstring \<Rightarrow> jstring \<Rightarrow> jstring) \<Rightarrow> jstring \<Rightarrow> jstring" where
  "replaceFn m f s = fst (replaceG m (\<lambda>mt g (u::unit). (f mt g, u)) s ())"

text \<open>The index of the first occurrence of a text: where a lazy \<open>[\s\S]*?\<close> followed
  by that text stops.\<close>

fun findSub :: "jstring \<Rightarrow> jstring \<Rightarrow> nat option" where
  "findSub pat [] = (if pat = [] then Some 0 else None)"
| "findSub pat (c # cs) =
     (if prefix pat (c # cs) then Some 0 else map_option Suc (findSub pat cs))"

text \<open>\<open>/~~~[\s\S]*?~~~/\<close>\<close>

definition matchTilde :: matcher where
  "matchTilde s =
     (if prefix (js ''~~~'') s then
        (case findSub (js ''~~~'') (drop 3 s) of
           None \<Rightarrow> None
         | Some j \<Rightarrow> Some (take (3 + j + 3) s, []))
      else None)"

text \<open>
  \<open>/(`+)[\s\S]*?\1/\<close>: the group first takes the whole run of backticks at the
  position; the lazy body then stops at the first later run of that length. When there
  is none the group gives one backtick back and the search starts again, down to one
  backtick.
\<close>

fun tryRun :: "nat \<Rightarrow> jstring \<Rightarrow> (jstring \<times> jstring) option" where
  "tryRun 0 s = None"
| "tryRun (Suc n) s =
     (case findSub (replicate (Suc n) BACKTICK) (drop (Suc n) s) of
        Some j \<Rightarrow> Some (take (Suc n + j + Suc n) s, replicate (Suc n) BACKTICK)
      | None \<Rightarrow> tryRun n s)"

definition matchBacktick :: matcher where
  "matchBacktick s = tryRun (length (takeWhile (\<lambda>c. c = BACKTICK) s)) s"

text \<open>\<open>/\$\$([\s\S]*?)\$\$/\<close>\<close>

definition matchBlock :: matcher where
  "matchBlock s =
     (if prefix (js ''$$'') s then
        (case findSub (js ''$$'') (drop 2 s) of
           None \<Rightarrow> None
         | Some j \<Rightarrow> Some (take (2 + j + 2) s, take j (drop 2 s)))
      else None)"

text \<open>\<open>/\$([^$\n]+?)\$/\<close>: the body cannot hold a dollar, so it is the run of code
  units other than \<open>$\<close> and newline after the opening dollar, and the match needs that
  run to be non-empty and followed by a dollar.\<close>

definition matchInline :: matcher where
  "matchInline s =
     (case s of
        [] \<Rightarrow> None
      | c # cs \<Rightarrow>
          (let body = takeWhile (\<lambda>x. x \<noteq> DOLLAR \<and> x \<noteq> NL) cs in
           if c = DOLLAR \<and> body \<noteq> [] \<and> prefix [DOLLAR] (drop (length body) cs)
           then Some (c # body @ [DOLLAR], body) else None))"

section \<open>The classifier's regular expressions\<close>

text \<open>
  The five tests of the inline callback only ask whether an expression matches
  somewhere (\<open>RegExp.prototype.test\<close>). The expressions are kept as syntax trees and run
  by a backtracking matcher: \<open>ms r (p, s)\<close> lists the positions where a match of \<open>r\<close>
  that starts at \<open>(p, s)\<close> can end, in the order in which backtracking tries them. A
  position is the code unit before it (none at the start of the input) and the rest
  of the input. \<open>Star\<close> is greedy and, as in ECMAScript, does not repeat an iteration
  that matched the empty string.
\<close>

datatype rx =
    Eps
  | Cls "cu \<Rightarrow> bool"
  | Seq rx rx
  | Alt rx rx
  | Star rx
  | Bol
  | Eol
  | Wb

type_synonym rpos = "cu option \<times> jstring"

definition wordBefore :: "rpos \<Rightarrow> bool" where
  "wordBefore st = (case fst st of None \<Rightarrow> False | Some c \<Rightarrow> isWordChar c)"

definition wordAfter :: "rpos \<Rightarrow> bool" where
  "wordAfter st = (case snd st of [] \<Rightarrow> False | c # cs \<Rightarrow> isWordChar c)"

function ms :: "rx \<Rightarrow> rpos \<Rightarrow> rpos list" where
  "ms Eps (p, s) = [(p, s)]"
| "ms (Cls P) (p, s) =
     (case s of [] \<Rightarrow> [] | c # cs \<Rightarrow> if P c then [(Some c, cs)] else [])"
| "ms (Seq a b) (p, s) = concat (map (ms b) (ms a (p, s)))"
| "ms (Alt a b) (p, s) = ms a (p, s) @ ms b (p, s)"
| "ms (Star a) (p, s) =
     concat (map (\<lambda>st'. if length (snd st') < length s then ms (Star a) st' else [])
               (ms a (p, s))) @ [(p, s)]"
| "ms Bol (p, s) = (if p = None then [(p, s)] else [])"
| "ms Eol (p, s) = (if s = [] then [(p, s)] else [])"
| "ms Wb (p, s) = (if wordBefore (p, s) \<noteq> wordAfter (p, s) then [(p, s)] else [])"
  by pat_completeness auto
termination
  by (relation "inv_image (less_than <*lex*> less_than) (\<lambda>(r, st). (size r, length (snd st)))")
     auto

definition Plus :: "rx \<Rightarrow> rx" where
  "Plus r = Seq r (Star r)"

definition Opt :: "rx \<Rightarrow> rx" where
  "Opt r = Alt r Eps"

definition Chr :: "cu \<Rightarrow> rx" where
  "Chr x = Cls (\<lambda>c. c = x)"

text \<open>A letter of a pattern under the \<open>i\<close> flag (without \<open>u\<close>): both cases of the
  letter, and no code unit outside ASCII.\<close>

definition ChrI :: "cu \<Rightarrow> rx" where
  "ChrI x = Cls (\<lambda>c. c = x \<or> c + 32 = x)"

fun Lit :: "(cu \<Rightarrow> rx) \<Rightarrow> jstring \<Rightarrow> rx" where
  "Lit f [] = Eps"
| "Lit f [c] = f c"
| "Lit f (c # cs) = Seq (f c) (Lit f cs)"

fun searchFrom :: "rx \<Rightarrow> cu option \<Rightarrow> jstring \<Rightarrow> bool" where
  "searchFrom r p [] = (ms r (p, []) \<noteq> [])"
| "searchFrom r p (c # cs) = (ms r (p, c # cs) \<noteq> [] \<or> searchFrom r (Some c) cs)"

definition test :: "rx \<Rightarrow> jstring \<Rightarrow> bool" where
  "test r s = searchFrom r None s"

abbreviation digit :: rx where "digit \<equiv> Cls isDigit"

text \<open>\<open>/^\d+([.,]\d+)?/\<close>\<close>

definition startsWithNumberRx :: rx where
  "startsWithNumberRx =
     Seq Bol (Seq (Plus digit)
       (Opt (Seq (Cls (\<lambda>c. c = 46 \<or> c = 44)) (Plus digit))))"

text \<open>\<open>/^(?:\d{1,3}(?:,\d{3})+|\d+)(?:\.\d+)?\s*$/\<close>\<close>

definition isPureNumberRx :: rx where
  "isPureNumberRx =
     Seq Bol
       (Seq (Alt (Seq (Seq digit (Opt (Seq digit (Opt digit))))
                      (Plus (Seq (Chr 44) (Seq digit (Seq digit digit)))))
                 (Plus digit))
         (Seq (Opt (Seq (Chr 46) (Plus digit)))
           (Seq (Star (Cls isSpace)) Eol)))"

text \<open>\<open>/\b(?:and|or|to|per|each)\b/i\<close>\<close>

definition hasRangeOrCurrencyWordsRx :: rx where
  "hasRangeOrCurrencyWordsRx =
     Seq Wb
       (Seq (Alt (Lit ChrI (js ''and''))
              (Alt (Lit ChrI (js ''or''))
                (Alt (Lit ChrI (js ''to''))
                  (Alt (Lit ChrI (js ''per'')) (Lit ChrI (js ''each''))))))
         Wb)"

text \<open>\<open>/^\d+([.,]\d+)?\s+[a-zA-Z]+/\<close>\<close>

definition hasEnglishWordsAfterNumberRx :: rx where
  "hasEnglishWordsAfterNumberRx =
     Seq Bol (Seq (Plus digit)
       (Seq (Opt (Seq (Cls (\<lambda>c. c = 46 \<or> c = 44)) (Plus digit)))
         (Seq (Plus (Cls isSpace)) (Plus (Cls isLetter)))))"

text \<open>\<open>/[^\d\s.,+\-*/=^_(){}\\a-zA-Z]/\<close>\<close>

definition hasNonLatexTokenRx :: rx where
  "hasNonLatexTokenRx =
     Cls (\<lambda>c. \<not> (isDigit c \<or> isSpace c \<or> c = 46 \<or> c = 44 \<or> c = 43 \<or> c = 45
                \<or> c = 42 \<or> c = 47 \<or> c = 61 \<or> c = 94 \<or> c = 95 \<or> c = 40 \<or> c = 41
                \<or> c = 123 \<or> c = 125 \<or> c = 92 \<or> isLetter c))"

section \<open>preprocessMathInMarkdown\<close>

definition placeholder :: "nat \<Rightarrow> jstring" where
  "placeholder idx = NUL # js ''MATH_PLACEHOLDER_'' @ showNat idx @ [NUL]"

definition savePlaceholder :: "jstring \<Rightarrow> jstring list \<Rightarrow> jstring \<times> jstring list" where
  "savePlaceholder raw placeholders = (placeholder (length placeholders), placeholders @ [raw])"

definition blockReplacer :: "jstring \<Rightarrow> jstring \<Rightarrow> jstring" where
  \<open>blockReplacer mt latex =
     (let trimmed = trim latex; escaped = escapeHtmlAttr trimmed in
      js ''<div data-type="block-math" data-latex="'' @ escaped @ js ''"></div>'')\<close>

text \<open>The condition under which the inline callback returns the match as it is.\<close>

definition leaveAsIs :: "jstring \<Rightarrow> bool" where
  "leaveAsIs trimmed =
     (let startsWithNumber = test startsWithNumberRx trimmed;
          isPureNumber = test isPureNumberRx trimmed;
          hasRangeOrCurrencyWords = test hasRangeOrCurrencyWordsRx trimmed;
          hasEnglishWordsAfterNumber = test hasEnglishWordsAfterNumberRx trimmed;
          hasNonLatexToken = test hasNonLatexTokenRx trimmed
      in isPureNumber \<or>
         (startsWithNumber \<and>
           (hasRangeOrCurrencyWords \<or> hasEnglishWordsAfterNumber \<or> hasNonLatexToken)))"

definition inlineReplacer :: "jstring \<Rightarrow> jstring \<Rightarrow> jstring" where
  \<open>inlineReplacer mt latex =
     (let trimmed = trim latex in
      if leaveAsIs trimmed then mt
      else
        (let escaped = escapeHtmlAttr trimmed in
         js ''<span data-type="inline-math" data-latex="'' @ escaped @ js ''"></span>''))\<close>

text \<open>The \<open>forEach\<close> over \<open>placeholders\<close>: \<open>idx\<close> is the index of \<open>value\<close>.\<close>

fun restoreFrom :: "nat \<Rightarrow> jstring list \<Rightarrow> jstring \<Rightarrow> jstring" where
  "restoreFrom idx [] restored = restored"
| "restoreFrom idx (v # vs) restored =
     restoreFrom (Suc idx) vs (replaceAll (placeholder idx) v restored)"

definition protectCode :: "jstring \<Rightarrow> jstring \<times> jstring list" where
  "protectCode markdown =
     (let (r1, p1) = replaceG matchTilde (\<lambda>m g. savePlaceholder m) markdown []
      in replaceG matchBacktick (\<lambda>m g. savePlaceholder m) r1 p1)"

definition convertMath :: "jstring \<Rightarrow> jstring" where
  "convertMath s = replaceFn matchInline inlineReplacer (replaceFn matchBlock blockReplacer s)"

definition preprocessMathInMarkdown :: "jstring \<Rightarrow> jstring" where
  "preprocessMathInMarkdown markdown =
     (let (result, placeholders) = protectCode markdown
      in restoreFrom 0 placeholders (convertMath result))"

section \<open>Notions used to state the properties\<close>

text \<open>
  Decoding of the four entities that \<open>escapeHtmlAttr\<close> writes, the ampersand last: what
  a reader of the attribute value does. It is not a function of the source; it is
  written with the same \<open>replaceAll\<close>.
\<close>

definition decodeHtmlAttr :: "jstring \<Rightarrow> jstring" where
  "decodeHtmlAttr s =
     replaceAll (js ''&amp;'') [AMP]
       (replaceAll (js ''&gt;'') [GT]
         (replaceAll (js ''&lt;'') [LT]
           (replaceAll (js ''&quot;'') [DQUOTE] s)))"

text \<open>\<open>escapeHtmlAttr\<close> seen as one pass: \<open>escOnly A\<close> writes the entity of every code
  unit of \<open>A\<close> and copies the others.\<close>

definition entity :: "cu \<Rightarrow> jstring" where
  "entity c = (if c = AMP then js ''&amp;'' else if c = DQUOTE then js ''&quot;''
               else if c = LT then js ''&lt;'' else if c = GT then js ''&gt;'' else [c])"

definition escOnly :: "cu set \<Rightarrow> jstring \<Rightarrow> jstring" where
  "escOnly A s = concat (map (\<lambda>c. if c \<in> A then entity c else [c]) s)"



text \<open>The two marker elements, around the value of their \<open>data-latex\<close> attribute.\<close>

definition inlineMarker :: "jstring \<Rightarrow> jstring" where
  \<open>inlineMarker a = js ''<span data-type="inline-math" data-latex="'' @ a @ js ''"></span>''\<close>

definition blockMarker :: "jstring \<Rightarrow> jstring" where
  \<open>blockMarker a = js ''<div data-type="block-math" data-latex="'' @ a @ js ''"></div>''\<close>

section \<open>The classifier as the specification words it\<close>












section \<open>What the expressions match\<close>



primrec plain :: "rx \<Rightarrow> bool" where
  "plain Eps = True"
| "plain (Cls P) = True"
| "plain (Seq a b) = (plain a \<and> plain b)"
| "plain (Alt a b) = (plain a \<and> plain b)"
| "plain (Star a) = plain a"
| "plain Bol = False"
| "plain Eol = False"
| "plain Wb = False"

definition ctx :: "cu option \<Rightarrow> jstring \<Rightarrow> cu option" where
  "ctx p w = (if w = [] then p else Some (last w))"







section \<open>The serializer's entry point\<close>

text \<open>
  Modelled from the spec: the serializer (\<open>jsonContentToMarkdown\<close> of
  \<open>markdown-serializer.ts\<close>) is not among the sources, only its tests are. Section 3
  gives the node (a type tag, attributes, marks, an optional text and an optional list
  of children) and section 4.2 the entry point: the empty string if the type of the root
  is not \<open>doc\<close> or its content is absent or empty, and otherwise the dispatch over the
  children, which is a parameter here (\<open>renderBlocks\<close>). The result is a string in
  every case: there is no error value.
\<close>

datatype node =
  Node (ntype: string) (attrs: "(string \<times> string) list") (marks: "string list")
       (ntext: "string option") (content: "node list option")

definition serialize :: "(node list \<Rightarrow> jstring) \<Rightarrow> node \<Rightarrow> jstring" where
  "serialize renderBlocks root =
     (case content root of
        None \<Rightarrow> []
      | Some children \<Rightarrow>
          if ntype root \<noteq> ''doc'' \<or> children = [] then [] else renderBlocks children)"

section \<open>Texts with sentinels\<close>

text \<open>
  To follow the sentinels through protection and restoring, a text is read as a list of
  items: a code unit, or the sentinel of an index. \<open>render\<close> writes the sentinels out,
  \<open>expand k vs\<close> puts the literal \<open>vs ! (i - k)\<close> in place of the sentinel \<open>i\<close> (for the
  indices from \<open>k\<close> on that \<open>vs\<close> covers), and \<open>substS k v\<close> replaces the sentinel \<open>k\<close> by
  the code units of \<open>v\<close>.
\<close>

datatype item = C cu | S nat



definition substS :: "nat \<Rightarrow> jstring \<Rightarrow> item list \<Rightarrow> item list" where
  "substS k v its = concat (map (\<lambda>it. if it = S k then map C v else [it]) its)"

section \<open>Evaluation on concrete inputs\<close>

lemmas eval_defs =
  js_def Plus_def Opt_def Chr_def ChrI_def isDigit_def isLetter_def isWordChar_def isSpace_def
  test_def isPureNumberRx_def startsWithNumberRx_def hasRangeOrCurrencyWordsRx_def
  hasEnglishWordsAfterNumberRx_def hasNonLatexTokenRx_def leaveAsIs_def wordBefore_def
  wordAfter_def trim_def replaceChar_def escapeHtmlAttr_def replaceAll_def replaceFn_def
  matchTilde_def matchBacktick_def matchBlock_def matchInline_def placeholder_def
  savePlaceholder_def blockReplacer_def inlineReplacer_def protectCode_def convertMath_def
  preprocessMathInMarkdown_def showNat.simps ms.simps(5) Let_def

section \<open>The global replace where nothing matches, and at a match\<close>

lemma replaceG_no_match:
  "(\<And>t. suffix t s \<Longrightarrow> t \<noteq> [] \<Longrightarrow> m t = None) \<Longrightarrow> replaceG m f s st = (s, st)"
proof (induction s)
  case Nil
  show ?case by simp
next
  case (Cons c cs)
  have here: "m (c # cs) = None"
    by (rule Cons.prems) simp_all
  have rest: "replaceG m f cs st = (cs, st)"
    by (rule Cons.IH) (simp add: Cons.prems suffix_ConsI)
  show ?case by (simp add: here rest)
qed

lemma replaceFn_no_match:
  "(\<And>t. suffix t s \<Longrightarrow> t \<noteq> [] \<Longrightarrow> m t = None) \<Longrightarrow> replaceFn m f s = s"
  by (simp add: replaceFn_def replaceG_no_match)

lemma replaceFn_Nil [simp]: "replaceFn m f [] = []"
  by (simp add: replaceFn_def)

lemma replaceFn_skip:
  "m (c # cs) = None \<Longrightarrow> replaceFn m f (c # cs) = c # replaceFn m f cs"
  by (simp add: replaceFn_def split: prod.splits)

lemma replaceFn_match:
  "m (c # cs) = Some (mt, g) \<Longrightarrow> mt \<noteq> [] \<Longrightarrow>
   replaceFn m f (c # cs) = f mt g @ replaceFn m f (drop (length mt - 1) cs)"
  by (simp add: replaceFn_def split: prod.splits)

lemma replaceFn_skip_prefix:
  "(\<And>t. suffix t pre \<Longrightarrow> t \<noteq> [] \<Longrightarrow> m (t @ s) = None) \<Longrightarrow>
   replaceFn m f (pre @ s) = pre @ replaceFn m f s"
proof (induction pre)
  case Nil
  show ?case by simp
next
  case (Cons c cs)
  have here: "m (c # cs @ s) = None"
    using Cons.prems [of "c # cs"] by simp
  have rest: "replaceFn m f (cs @ s) = cs @ replaceFn m f s"
    by (rule Cons.IH) (simp add: Cons.prems suffix_ConsI)
  show ?case by (simp add: replaceFn_skip here rest)
qed

subsection \<open>Where the four expressions cannot match\<close>

lemma matchTilde_None: "\<not> prefix (js ''~~~'') t \<Longrightarrow> matchTilde t = None"
  by (simp add: matchTilde_def)

lemma matchBacktick_None: "t = [] \<or> hd t \<noteq> BACKTICK \<Longrightarrow> matchBacktick t = None"
  by (cases t) (auto simp: matchBacktick_def)

lemma matchBlock_None: "\<not> prefix (js ''$$'') t \<Longrightarrow> matchBlock t = None"
  by (simp add: matchBlock_def)

lemma matchInline_None: "t = [] \<or> hd t \<noteq> DOLLAR \<Longrightarrow> matchInline t = None"
  by (cases t) (auto simp: matchInline_def Let_def)

lemma suffix_hd_in_set: "suffix t s \<Longrightarrow> t \<noteq> [] \<Longrightarrow> hd t \<in> set s"
  by (auto simp: suffix_def)

lemma prefix_suffix_sublist: "prefix p t \<Longrightarrow> suffix t s \<Longrightarrow> sublist p s"
  by (auto simp: prefix_def suffix_def sublist_def)

lemma protectCode_no_code:
  assumes "BACKTICK \<notin> set md" and "\<not> sublist (js ''~~~'') md"
  shows "protectCode md = (md, [])"
proof -
  have tilde: "replaceG matchTilde (\<lambda>m g. savePlaceholder m) md [] = (md, [])"
  proof (rule replaceG_no_match)
    fix t assume "suffix t md" "t \<noteq> []"
    then have "\<not> prefix (js ''~~~'') t"
      using assms(2) prefix_suffix_sublist by blast
    then show "matchTilde t = None" by (rule matchTilde_None)
  qed
  have tick: "replaceG matchBacktick (\<lambda>m g. savePlaceholder m) md [] = (md, [])"
  proof (rule replaceG_no_match)
    fix t assume "suffix t md" "t \<noteq> []"
    then have "hd t \<noteq> BACKTICK"
      using assms(1) suffix_hd_in_set by metis
    then show "matchBacktick t = None" by (simp add: matchBacktick_None)
  qed
  show ?thesis by (simp add: protectCode_def tilde tick)
qed

lemma replaceBlock_no_dollar:
  assumes "DOLLAR \<notin> set s"
  shows "replaceFn matchBlock f s = s"
proof (rule replaceFn_no_match)
  fix t assume "suffix t s" "t \<noteq> []"
  then have "hd t \<noteq> DOLLAR"
    using assms suffix_hd_in_set by metis
  then have "\<not> prefix (js ''$$'') t"
    using \<open>t \<noteq> []\<close> by (cases t) (auto simp: js_def)
  then show "matchBlock t = None" by (rule matchBlock_None)
qed

lemma replaceInline_no_dollar:
  assumes "DOLLAR \<notin> set s"
  shows "replaceFn matchInline f s = s"
proof (rule replaceFn_no_match)
  fix t assume "suffix t s" "t \<noteq> []"
  then have "hd t \<noteq> DOLLAR"
    using assms suffix_hd_in_set by metis
  then show "matchInline t = None" by (simp add: matchInline_None)
qed

lemma convertMath_no_dollar: "DOLLAR \<notin> set s \<Longrightarrow> convertMath s = s"
  by (simp add: convertMath_def replaceBlock_no_dollar replaceInline_no_dollar)

lemma preprocess_no_code:
  "BACKTICK \<notin> set md \<Longrightarrow> \<not> sublist (js ''~~~'') md \<Longrightarrow>
   preprocessMathInMarkdown md = convertMath md"
  by (simp add: preprocessMathInMarkdown_def protectCode_no_code)

section \<open>Escaping and decoding, delimiters, single formulas\<close>

lemma replaceChar_append: "replaceChar c r (a @ b) = replaceChar c r a @ replaceChar c r b"
  by (simp add: replaceChar_def)

lemma escOnly_Cons: "escOnly A (c # s) = (if c \<in> A then entity c else [c]) @ escOnly A s"
  by (simp add: escOnly_def)

lemma escOnly_Nil [simp]: "escOnly A [] = []"
  by (simp add: escOnly_def)

lemma escapeHtmlAttr_escOnly: "escapeHtmlAttr s = escOnly {AMP, DQUOTE, LT, GT} s"
  by (induction s)
     (simp_all add: escapeHtmlAttr_def escOnly_Cons replaceChar_append entity_def,
      simp_all add: replaceChar_def js_def)

lemma decode_quot:
  "replaceAllAt (js ''&quot;'') [DQUOTE] str pos (escOnly {AMP, DQUOTE, LT, GT} s)
   = escOnly {AMP, LT, GT} s"
  by (induction s arbitrary: pos) (simp_all add: escOnly_Cons entity_def js_def)

lemma decode_lt:
  "replaceAllAt (js ''&lt;'') [LT] str pos (escOnly {AMP, LT, GT} s) = escOnly {AMP, GT} s"
  by (induction s arbitrary: pos) (simp_all add: escOnly_Cons entity_def js_def)

lemma decode_gt:
  "replaceAllAt (js ''&gt;'') [GT] str pos (escOnly {AMP, GT} s) = escOnly {AMP} s"
  by (induction s arbitrary: pos) (simp_all add: escOnly_Cons entity_def js_def)

lemma decode_amp:
  "replaceAllAt (js ''&amp;'') [AMP] str pos (escOnly {AMP} s) = s"
  by (induction s arbitrary: pos) (simp_all add: escOnly_Cons entity_def js_def)

lemma replaceAll_nonempty: "pat \<noteq> [] \<Longrightarrow> replaceAll pat rep str = replaceAllAt pat rep str 0 str"
  by (simp add: replaceAll_def)

lemma decode_escape: "decodeHtmlAttr (escapeHtmlAttr s) = s"
proof -
  have ne: "js ''&quot;'' \<noteq> []" "js ''&lt;'' \<noteq> []" "js ''&gt;'' \<noteq> []" "js ''&amp;'' \<noteq> []"
    by (simp_all add: js_def)
  show ?thesis
    by (simp add: decodeHtmlAttr_def replaceAll_nonempty ne escapeHtmlAttr_escOnly
        decode_quot decode_lt decode_gt decode_amp)
qed


lemma escape_inj: "inj escapeHtmlAttr"
  by (rule inj_on_inverseI [where g = decodeHtmlAttr]) (rule decode_escape)


lemma findSub_prefix: "prefix pat s \<Longrightarrow> findSub pat s = Some 0"
  by (cases s) auto

lemma findSub_first:
  "pat \<noteq> [] \<Longrightarrow> hd pat \<notin> set xs \<Longrightarrow> findSub pat (xs @ pat @ rest) = Some (length xs)"
proof (induction xs)
  case Nil
  show ?case by (simp add: findSub_prefix)
next
  case (Cons c cs)
  have "\<not> prefix pat (c # cs @ pat @ rest)"
    using Cons.prems by (cases pat) auto
  moreover have "findSub pat (cs @ pat @ rest) = Some (length cs)"
    using Cons by simp
  ultimately show ?case by simp
qed



lemma matchInline_candidate:
  assumes "x \<noteq> []" "DOLLAR \<notin> set x" "NL \<notin> set x"
  shows "matchInline (DOLLAR # x @ DOLLAR # rest) = Some (DOLLAR # x @ [DOLLAR], x)"
proof -
  have "takeWhile (\<lambda>c. c \<noteq> DOLLAR \<and> c \<noteq> NL) (x @ DOLLAR # rest) = x"
    using assms by (subst takeWhile_append2) auto
  then show ?thesis
    using assms by (simp add: matchInline_def)
qed






lemma sublist_append_disj_right:
  assumes "sublist p (xs @ ys)" "p \<noteq> []" "set p \<inter> set ys = {}"
  shows "sublist p xs"
proof -
  from assms(1) consider "sublist p xs" | "sublist p ys"
    | xs1 xs2 where "p = xs1 @ xs2" "suffix xs1 xs" "prefix xs2 ys"
    unfolding sublist_append by blast
  then show ?thesis
  proof cases
    case 1 then show ?thesis .
  next
    case 2
    then have "set p \<subseteq> set ys" by (rule set_mono_sublist)
    with assms(2,3) show ?thesis by (cases p) auto
  next
    case 3
    show ?thesis
    proof (cases xs2)
      case Nil
      with 3 show ?thesis by simp
    next
      case (Cons a as)
      with 3(3) have "a \<in> set ys" by (auto simp: prefix_def)
      moreover from Cons 3(1) have "a \<in> set p" by simp
      ultimately show ?thesis using assms(3) by auto
    qed
  qed
qed

lemma sublist_append_disj_left:
  assumes "sublist p (xs @ ys)" "p \<noteq> []" "set p \<inter> set xs = {}"
  shows "sublist p ys"
proof -
  from assms(1) consider "sublist p xs" | "sublist p ys"
    | xs1 xs2 where "p = xs1 @ xs2" "suffix xs1 xs" "prefix xs2 ys"
    unfolding sublist_append by blast
  then show ?thesis
  proof cases
    case 1
    then have "set p \<subseteq> set xs" by (rule set_mono_sublist)
    with assms(2,3) show ?thesis by (cases p) auto
  next
    case 2 then show ?thesis .
  next
    case 3
    show ?thesis
    proof (cases xs1)
      case Nil
      with 3 show ?thesis by simp
    next
      case (Cons a as)
      with 3(2) have "a \<in> set xs" by (auto simp: suffix_def)
      moreover from Cons 3(1) have "a \<in> set p" by simp
      ultimately show ?thesis using assms(3) by auto
    qed
  qed
qed

lemma no_fence_wrapped:
  assumes "\<not> sublist (js ''~~~'') x" "TILDE \<notin> set a" "TILDE \<notin> set b"
  shows "\<not> sublist (js ''~~~'') (a @ x @ b)"
proof
  assume "sublist (js ''~~~'') (a @ x @ b)"
  then have "sublist (js ''~~~'') (x @ b)"
    by (rule sublist_append_disj_left) (use assms(2) in \<open>auto simp: js_def\<close>)
  then have "sublist (js ''~~~'') x"
    by (rule sublist_append_disj_right) (use assms(3) in \<open>auto simp: js_def\<close>)
  with assms(1) show False by simp
qed

lemma no_double_dollar:
  assumes "x \<noteq> []" "DOLLAR \<notin> set x"
  shows "\<not> sublist (js ''$$'') (DOLLAR # x @ [DOLLAR])"
proof -
  have tail: "\<not> sublist [DOLLAR, DOLLAR] (y @ [DOLLAR])" if "DOLLAR \<notin> set y" for y
    using that by (induction y) (auto simp: sublist_Cons_right)
  show ?thesis
    using assms tail [of x] by (cases x) (auto simp: js_def sublist_Cons_right)
qed

lemma replaceBlock_single_inline:
  assumes "x \<noteq> []" "DOLLAR \<notin> set x"
  shows "replaceFn matchBlock f (DOLLAR # x @ [DOLLAR]) = DOLLAR # x @ [DOLLAR]"
proof (rule replaceFn_no_match)
  fix t assume "suffix t (DOLLAR # x @ [DOLLAR])" "t \<noteq> []"
  then have "\<not> prefix (js ''$$'') t"
    using no_double_dollar [OF assms] prefix_suffix_sublist by blast
  then show "matchBlock t = None" by (rule matchBlock_None)
qed

lemma replaceInline_candidate:
  assumes "x \<noteq> []" "DOLLAR \<notin> set x" "NL \<notin> set x"
  shows "replaceFn matchInline f (DOLLAR # x @ DOLLAR # rest)
         = f (DOLLAR # x @ [DOLLAR]) x @ replaceFn matchInline f rest"
proof -
  have m: "matchInline (DOLLAR # (x @ DOLLAR # rest)) = Some (DOLLAR # x @ [DOLLAR], x)"
    by (rule matchInline_candidate [OF assms])
  show ?thesis
    using replaceFn_match [of matchInline DOLLAR "x @ DOLLAR # rest" "DOLLAR # x @ [DOLLAR]" x f] m
    by simp
qed

lemma preprocess_single_inline:
  assumes "x \<noteq> []" "DOLLAR \<notin> set x" "NL \<notin> set x" "BACKTICK \<notin> set x"
    and "\<not> sublist (js ''~~~'') x"
  shows "preprocessMathInMarkdown (DOLLAR # x @ [DOLLAR]) = inlineReplacer (DOLLAR # x @ [DOLLAR]) x"
proof -
  have t: "\<not> sublist (js ''~~~'') ([DOLLAR] @ x @ [DOLLAR])"
    by (rule no_fence_wrapped) (use assms(5) in simp_all)
  have "preprocessMathInMarkdown (DOLLAR # x @ [DOLLAR]) = convertMath (DOLLAR # x @ [DOLLAR])"
    by (rule preprocess_no_code) (use assms(4) t in simp_all)
  also have "\<dots> = replaceFn matchInline inlineReplacer (DOLLAR # x @ [DOLLAR])"
    by (simp add: convertMath_def replaceBlock_single_inline assms)
  also have "\<dots> = inlineReplacer (DOLLAR # x @ [DOLLAR]) x"
    using replaceInline_candidate [OF assms(1-3), of inlineReplacer "[]"] by simp
  finally show ?thesis .
qed

lemma dropWhile_all: "\<forall>c\<in>set x. P c \<Longrightarrow> dropWhile P x = []"
  by (induction x) auto

lemma trim_all_space: "\<forall>c\<in>set x. isSpace c \<Longrightarrow> trim x = []"
  by (simp add: trim_def dropWhile_all)

lemma trim_Cons_space: "isSpace c \<Longrightarrow> trim (c # s) = trim s"
  by (simp add: trim_def)

lemma trim_snoc_space: "isSpace c \<Longrightarrow> trim (s @ [c]) = trim s"
  by (simp add: trim_def dropWhile_append dropWhile_all)

lemma trim_no_space:
  assumes "s \<noteq> []" "\<not> isSpace (hd s)" "\<not> isSpace (last s)"
  shows "trim s = s"
proof -
  from assms(1,2) have a: "dropWhile isSpace s = s" by (cases s) auto
  from assms(1,3) have "dropWhile isSpace (rev s) = rev s"
    by (cases s rule: rev_cases) auto
  with a show ?thesis by (simp add: trim_def)
qed

lemma leaveAsIs_Nil: "\<not> leaveAsIs []"
  by (simp add: eval_defs)

lemma inlineReplacer_marker:
  "inlineReplacer mt latex =
     (if leaveAsIs (trim latex) then mt else inlineMarker (escapeHtmlAttr (trim latex)))"
  by (simp add: inlineReplacer_def inlineMarker_def Let_def)

lemma blockReplacer_marker: "blockReplacer mt latex = blockMarker (escapeHtmlAttr (trim latex))"
  by (simp add: blockReplacer_def blockMarker_def Let_def)

lemma set_trim: "set (trim x) \<subseteq> set x"
  by (auto simp: trim_def dest!: set_dropWhileD)

lemma escape_no_dollar: "DOLLAR \<notin> set s \<Longrightarrow> DOLLAR \<notin> set (escapeHtmlAttr s)"
  by (induction s) (simp_all add: escapeHtmlAttr_escOnly escOnly_Cons entity_def js_def)

lemma blockMarker_no_dollar: "DOLLAR \<notin> set a \<Longrightarrow> DOLLAR \<notin> set (blockMarker a)"
  by (simp add: blockMarker_def js_def)

lemma matchBlock_fenced:
  assumes "DOLLAR \<notin> set x"
  shows "matchBlock (js ''$$'' @ x @ js ''$$'' @ rest) = Some (js ''$$'' @ x @ js ''$$'', x)"
proof -
  have f: "findSub (js ''$$'') (x @ js ''$$'' @ rest) = Some (length x)"
    by (rule findSub_first) (use assms in \<open>simp_all add: js_def\<close>)
  have d: "drop 2 (js ''$$'' @ x @ js ''$$'' @ rest) = x @ js ''$$'' @ rest"
    by (simp add: js_def)
  have l: "js ''$$'' = [DOLLAR, DOLLAR]" by (simp add: js_def)
  show ?thesis
    unfolding matchBlock_def d f by (simp add: l)
qed

lemma replaceBlock_fenced:
  assumes "DOLLAR \<notin> set x"
  shows "replaceFn matchBlock f (js ''$$'' @ x @ js ''$$'' @ rest)
         = f (js ''$$'' @ x @ js ''$$'') x @ replaceFn matchBlock f rest"
proof -
  have l: "js ''$$'' = [DOLLAR, DOLLAR]" by (simp add: js_def)
  have m: "matchBlock (DOLLAR # (DOLLAR # x @ js ''$$'' @ rest)) = Some (js ''$$'' @ x @ js ''$$'', x)"
    using matchBlock_fenced [OF assms, of rest] by (simp add: l)
  show ?thesis
    using replaceFn_match [of matchBlock DOLLAR "DOLLAR # x @ js ''$$'' @ rest"
        "js ''$$'' @ x @ js ''$$''" x f] m
    by (simp add: l)
qed

lemma preprocess_single_block:
  assumes "DOLLAR \<notin> set x" "BACKTICK \<notin> set x" "\<not> sublist (js ''~~~'') x"
  shows "preprocessMathInMarkdown (js ''$$'' @ x @ js ''$$'') = blockMarker (escapeHtmlAttr (trim x))"
proof -
  let ?md = "js ''$$'' @ x @ js ''$$''"
  have t: "\<not> sublist (js ''~~~'') ?md"
    by (rule no_fence_wrapped) (use assms(3) in \<open>simp_all add: js_def\<close>)
  have b: "BACKTICK \<notin> set ?md" using assms(2) by (simp add: js_def)
  have "preprocessMathInMarkdown ?md = convertMath ?md"
    by (rule preprocess_no_code [OF b t])
  also have "\<dots> = replaceFn matchInline inlineReplacer (blockMarker (escapeHtmlAttr (trim x)))"
    using replaceBlock_fenced [OF assms(1), of blockReplacer "[]"]
    by (simp add: convertMath_def blockReplacer_marker)
  also have "\<dots> = blockMarker (escapeHtmlAttr (trim x))"
  proof (rule replaceInline_no_dollar)
    have "DOLLAR \<notin> set (trim x)"
      using assms(1) set_trim by blast
    then show "DOLLAR \<notin> set (blockMarker (escapeHtmlAttr (trim x)))"
      by (intro blockMarker_no_dollar escape_no_dollar)
  qed
  finally show ?thesis .
qed

section \<open>The matcher and the languages; the classifier meets its specification\<close>

declare ms.simps(5) [simp del]

lemma ctx_Nil [simp]: "ctx p [] = p"
  by (simp add: ctx_def)















lemma plain_Plus [simp]: "plain (Plus r) = plain r"
  by (simp add: Plus_def)

lemma plain_Opt [simp]: "plain (Opt r) = plain r"
  by (simp add: Opt_def)

lemma plain_Chr [simp]: "plain (Chr c)"
  by (simp add: Chr_def)































section \<open>Protection and restoring\<close>














lemma substS_Nil [simp]: "substS k v [] = []"
  by (simp add: substS_def)



























section \<open>Claims\<close>

text \<open>
  C9. Preprocessing is the identity on math-free input: a text with no dollar, no
  backtick and no \<open>~~~\<close> comes back unchanged.
\<close>

theorem preprocess_identity_on_math_free:
  assumes "DOLLAR \<notin> set md" and "BACKTICK \<notin> set md" and "\<not> sublist (js ''~~~'') md"
  shows "preprocessMathInMarkdown md = md"
  using assms by (simp add: preprocess_no_code convertMath_no_dollar)

theorem preprocess_identity_on_math_free_witness:
  "DOLLAR \<notin> set (js ''a ~~ b'') \<and> BACKTICK \<notin> set (js ''a ~~ b'')
   \<and> \<not> sublist (js ''~~~'') (js ''a ~~ b'')
   \<and> preprocessMathInMarkdown (js ''a ~~ b'') = js ''a ~~ b''"
proof -
  have h1: "DOLLAR \<notin> set (js ''a ~~ b'')" by (simp add: js_def)
  have h2: "BACKTICK \<notin> set (js ''a ~~ b'')" by (simp add: js_def)
  have h3: "\<not> sublist (js ''~~~'') (js ''a ~~ b'')"
    by (simp add: js_def sublist_Cons_right)
  show ?thesis
    using preprocess_identity_on_math_free [OF h1 h2 h3] h1 h2 h3 by simp
qed

text \<open>
  C3. Currency is not converted: preprocessing \<open>I have $5 and $10.\<close> gives the text
  back as it is, so no math marker is emitted and \<open>$5\<close> and \<open>$10\<close> stay plain text.
  (The candidate \<open>$5 and $\<close> starts with a number and holds the word \<open>and\<close>.)
\<close>

theorem currency_not_converted:
  "preprocessMathInMarkdown (js ''I have $5 and $10.'') = js ''I have $5 and $10.''"
  by (simp add: eval_defs)

text \<open>
  C4. Code protection, on the input of the claim: the code span of
  \<open>Use `$x^2$` here.\<close> is taken out and no math marker is emitted, but the span does
  not come back as it was. It ends in a dollar followed by a backtick, which
  \<open>replaceAll\<close> reads in its replacement text as "the text before the match", so
  \<open>Use \<close> is put in its place.
\<close>

theorem code_span_restored_wrongly:
  "preprocessMathInMarkdown (js ''Use `$x^2$` here.'') = js ''Use `$x^2Use  here.''"
  by (simp add: eval_defs)



text \<open>
  C7, as the claim states it, fails: the candidate \<open>$ $\<close>, whose interior is one
  space, is replaced by an inline marker with an empty \<open>data-latex\<close>.
\<close>

theorem whitespace_only_candidate_converted:
  "preprocessMathInMarkdown (js ''$ $'') = inlineMarker []
   \<and> preprocessMathInMarkdown (js ''$ $'') \<noteq> js ''$ $''"
  by (simp add: eval_defs inlineMarker_def)

text \<open>
  C7, amended. A candidate whose interior is non-empty and only white space is
  classified as math: the match is replaced by the inline marker with an empty
  \<open>data-latex\<close>, in the inline pass and so in the whole preprocessing of that text.
\<close>

theorem whitespace_only_candidate_is_math:
  assumes "x \<noteq> []" and "\<forall>c\<in>set x. isSpace c \<and> c \<noteq> NL"
  shows "replaceFn matchInline inlineReplacer (DOLLAR # x @ DOLLAR # rest)
           = inlineMarker [] @ replaceFn matchInline inlineReplacer rest
         \<and> preprocessMathInMarkdown (DOLLAR # x @ [DOLLAR]) = inlineMarker []"
proof -
  have sp: "\<forall>c\<in>set x. isSpace c" and nl: "NL \<notin> set x"
    using assms(2) by auto
  have d: "DOLLAR \<notin> set x" and b: "BACKTICK \<notin> set x" and ti: "TILDE \<notin> set x"
    using sp by (auto simp: isSpace_def)
  have f: "\<not> sublist (js ''~~~'') x"
    using ti set_mono_sublist [of "js ''~~~''" x] by (auto simp: js_def)
  have r: "inlineReplacer mt x = inlineMarker []" for mt
    by (simp add: inlineReplacer_marker trim_all_space sp leaveAsIs_Nil escapeHtmlAttr_escOnly)
  show ?thesis
    using replaceInline_candidate [OF assms(1) d nl, of inlineReplacer rest]
      preprocess_single_inline [OF assms(1) d nl b f]
    by (simp add: r)
qed

theorem whitespace_only_candidate_is_math_witness:
  "replaceFn matchInline inlineReplacer (js ''$  $ and $ $'') = inlineMarker [] @ js '' and '' @ inlineMarker []"
proof -
  have h1: "js ''  '' \<noteq> []" by (simp add: js_def)
  have h2: "\<forall>c\<in>set (js ''  ''). isSpace c \<and> c \<noteq> NL" by (simp add: js_def isSpace_def)
  show ?thesis
    using whitespace_only_candidate_is_math [OF h1 h2, of "js '' and $ $''"]
    by (simp add: eval_defs inlineMarker_def)
qed

text \<open>
  C1, as the claim states it, fails: the latex \<open>5\<close> is serialized as \<open>$5$\<close>, which
  the classifier takes for a pure number and leaves as text; no marker is emitted.
\<close>

theorem pure_number_not_round_tripped:
  "preprocessMathInMarkdown (js ''$5$'') = js ''$5$''
   \<and> preprocessMathInMarkdown (js ''$5$'') \<noteq> inlineMarker (js ''5'')"
  by (simp add: eval_defs inlineMarker_def)

text \<open>
  C1, amended. Let \<open>latex\<close> hold no dollar, no backtick and no \<open>~~~\<close>. If it is
  non-empty, has no newline and its trimmed text is not classified as plain text, then
  preprocessing \<open>$latex$\<close> gives exactly the inline marker that carries the escaped
  trimmed latex. Preprocessing the block form (\<open>$$\<close>, newline, latex, newline, \<open>$$\<close>)
  gives exactly the block marker that carries it. The attribute decodes to the trimmed
  latex, which is the latex itself when it neither starts nor ends with white space.
\<close>

theorem math_round_trip_unless_plain_text:
  assumes "DOLLAR \<notin> set latex" and "BACKTICK \<notin> set latex" and "\<not> sublist (js ''~~~'') latex"
  shows "(latex \<noteq> [] \<and> NL \<notin> set latex \<and> \<not> leaveAsIs (trim latex) \<longrightarrow>
            preprocessMathInMarkdown (DOLLAR # latex @ [DOLLAR])
              = inlineMarker (escapeHtmlAttr (trim latex)))
         \<and> preprocessMathInMarkdown (js ''$$'' @ [NL] @ latex @ [NL] @ js ''$$'')
              = blockMarker (escapeHtmlAttr (trim latex))
         \<and> decodeHtmlAttr (escapeHtmlAttr (trim latex)) = trim latex
         \<and> (latex \<noteq> [] \<and> \<not> isSpace (hd latex) \<and> \<not> isSpace (last latex) \<longrightarrow> trim latex = latex)"
proof -
  have inl: "preprocessMathInMarkdown (DOLLAR # latex @ [DOLLAR])
              = inlineMarker (escapeHtmlAttr (trim latex))"
    if "latex \<noteq> []" "NL \<notin> set latex" "\<not> leaveAsIs (trim latex)"
    using preprocess_single_inline [OF that(1) assms(1) that(2) assms(2,3)] that(3)
    by (simp add: inlineReplacer_marker)
  have nl: "isSpace NL" by (simp add: isSpace_def)
  have x: "DOLLAR \<notin> set ([NL] @ latex @ [NL])" "BACKTICK \<notin> set ([NL] @ latex @ [NL])"
    using assms(1,2) by simp_all
  have f: "\<not> sublist (js ''~~~'') ([NL] @ latex @ [NL])"
    by (rule no_fence_wrapped) (use assms(3) in simp_all)
  have tr: "trim (NL # latex @ [NL]) = trim latex"
    by (simp add: trim_Cons_space trim_snoc_space nl)
  have blk: "preprocessMathInMarkdown (js ''$$'' @ [NL] @ latex @ [NL] @ js ''$$'')
              = blockMarker (escapeHtmlAttr (trim latex))"
    using preprocess_single_block [OF x f] by (simp add: tr)
  show ?thesis
  proof (intro conjI impI)
    assume "latex \<noteq> [] \<and> NL \<notin> set latex \<and> \<not> leaveAsIs (trim latex)"
    then show "preprocessMathInMarkdown (DOLLAR # latex @ [DOLLAR])
                 = inlineMarker (escapeHtmlAttr (trim latex))"
      using inl by blast
  next
    show "preprocessMathInMarkdown (js ''$$'' @ [NL] @ latex @ [NL] @ js ''$$'')
            = blockMarker (escapeHtmlAttr (trim latex))"
      by (rule blk)
  next
    show "decodeHtmlAttr (escapeHtmlAttr (trim latex)) = trim latex"
      by (rule decode_escape)
  next
    assume "latex \<noteq> [] \<and> \<not> isSpace (hd latex) \<and> \<not> isSpace (last latex)"
    then show "trim latex = latex"
      by (simp add: trim_no_space)
  qed
qed

theorem math_round_trip_unless_plain_text_witness:
  "preprocessMathInMarkdown (DOLLAR # js '' x<y '' @ [DOLLAR]) = inlineMarker (js ''x&lt;y'')
   \<and> preprocessMathInMarkdown (js ''$$'' @ [NL] @ js '' x<y '' @ [NL] @ js ''$$'') = blockMarker (js ''x&lt;y'')
   \<and> decodeHtmlAttr (js ''x&lt;y'') = js ''x<y''"
proof -
  have h1: "DOLLAR \<notin> set (js '' x<y '')" by (simp add: js_def)
  have h2: "BACKTICK \<notin> set (js '' x<y '')" by (simp add: js_def)
  have h3: "\<not> sublist (js ''~~~'') (js '' x<y '')" by (simp add: js_def sublist_Cons_right)
  have h4: "js '' x<y '' \<noteq> [] \<and> NL \<notin> set (js '' x<y '') \<and> \<not> leaveAsIs (trim (js '' x<y ''))"
    by (simp add: eval_defs)
  have e: "escapeHtmlAttr (js ''x<y'') = js ''x&lt;y''" "trim (js '' x<y '') = js ''x<y''"
    by (simp_all add: eval_defs)
  show ?thesis
    using math_round_trip_unless_plain_text [OF h1 h2 h3] h4
    by (simp add: e)
qed





text \<open>
  C8. Empty serialization: the serializer returns the empty string whenever the type of
  the root is not \<open>doc\<close>, or its content is absent, or its content is empty, whatever
  the dispatch over children does; the result is a string, not an error.
\<close>

theorem serialize_empty:
  assumes "ntype root \<noteq> ''doc'' \<or> content root = None \<or> content root = Some []"
  shows "serialize renderBlocks root = []"
  using assms by (auto simp: serialize_def split: option.splits)

theorem serialize_empty_witness:
  "serialize (\<lambda>children. js ''text'') (Node ''paragraph'' [] [] None None) = []
   \<and> serialize (\<lambda>children. js ''text'') (Node ''doc'' [] [] None None) = []
   \<and> serialize (\<lambda>children. js ''text'') (Node ''doc'' [] [] None (Some [])) = []
   \<and> serialize (\<lambda>children. js ''text'') (Node ''heading'' [] [] None (Some [Node ''text'' [] [] (Some ''x'') None])) = []"
proof -
  have h1: "ntype (Node ''paragraph'' [] [] None None) \<noteq> ''doc''
            \<or> content (Node ''paragraph'' [] [] None None) = None
            \<or> content (Node ''paragraph'' [] [] None None) = Some []" by simp
  have h2: "ntype (Node ''doc'' [] [] None None) \<noteq> ''doc''
            \<or> content (Node ''doc'' [] [] None None) = None
            \<or> content (Node ''doc'' [] [] None None) = Some []" by simp
  have h3: "ntype (Node ''doc'' [] [] None (Some [])) \<noteq> ''doc''
            \<or> content (Node ''doc'' [] [] None (Some [])) = None
            \<or> content (Node ''doc'' [] [] None (Some [])) = Some []" by simp
  have h4: "ntype (Node ''heading'' [] [] None (Some [Node ''text'' [] [] (Some ''x'') None])) \<noteq> ''doc''
            \<or> content (Node ''heading'' [] [] None (Some [Node ''text'' [] [] (Some ''x'') None])) = None
            \<or> content (Node ''heading'' [] [] None (Some [Node ''text'' [] [] (Some ''x'') None])) = Some []"
    by simp
  show ?thesis
    using serialize_empty [OF h1, of "\<lambda>children. js ''text''"] serialize_empty [OF h2, of "\<lambda>children. js ''text''"] serialize_empty [OF h3, of "\<lambda>children. js ''text''"]
      serialize_empty [OF h4, of "\<lambda>children. js ''text''"]
    by blast
qed




end
